theory Spec2Isabelle
  imports Main "HOL-Library.Sublist"
begin

section \<open>Python values, exceptions and awaited operations\<close>

text \<open>
  Byte strings are lists of 8-bit characters. A value read out of the proxy dictionary is
  a string, an integer or Python's \<open>None\<close>.
\<close>

type_synonym bytes = "char list"

datatype pyval = PStr string | PInt int | PNone

text \<open>
  The exceptions that occur in the two modules. \<open>AsyncioTimeoutError\<close> is the
  exception that \<open>asyncio\<close> raises when a \<open>wait_for\<close> runs out of time, an instance of
  \<open>asyncio.TimeoutError\<close>; \<open>TimeoutError\<close> is any other instance of the builtin
  class, a subclass of \<open>OSError\<close>. Before Python 3.11 \<open>asyncio.TimeoutError\<close> is a
  class of its own, from 3.11 on it is the builtin \<open>TimeoutError\<close>. \<open>OSError_from e\<close>
  is \<open>OSError(e)\<close>. \<open>CancelledError\<close> and \<open>KeyboardInterrupt\<close> derive from
  \<open>BaseException\<close> only.
\<close>

datatype exc =
    OSError string
  | TimeoutError string
  | AsyncioTimeoutError
  | AttributeError string
  | ValueError string
  | OverflowError string
  | RPCError string
  | OSError_from exc
  | CancelledError
  | KeyboardInterrupt

text \<open>\<open>isinstance(e, Exception)\<close>: what a clause \<open>except Exception\<close> catches.\<close>

fun is_Exception :: "exc \<Rightarrow> bool" where
  "is_Exception CancelledError = False"
| "is_Exception KeyboardInterrupt = False"
| "is_Exception _ = True"

text \<open>
  \<open>isinstance(e, OSError)\<close>, but for \<open>AsyncioTimeoutError\<close>, which is an \<open>OSError\<close>
  from Python 3.11 on only; the one handler that tests for \<open>OSError\<close>, in \<open>recv\<close>,
  names \<open>asyncio.TimeoutError\<close> beside it.
\<close>

fun is_OSError :: "exc \<Rightarrow> bool" where
  "is_OSError (OSError _) = True"
| "is_OSError (TimeoutError _) = True"
| "is_OSError (OSError_from _) = True"
| "is_OSError _ = False"

text \<open>An instance of the builtin \<open>TimeoutError\<close> other than the one \<open>asyncio\<close> raises.\<close>

fun is_TimeoutError :: "exc \<Rightarrow> bool" where
  "is_TimeoutError (TimeoutError _) = True"
| "is_TimeoutError _ = False"

text \<open>
  What a clause \<open>except asyncio.TimeoutError\<close> catches. \<open>aliased\<close> tells whether
  \<open>asyncio.TimeoutError\<close> is the builtin \<open>TimeoutError\<close> (Python 3.11 and later) or a
  class of its own (before).
\<close>

definition caught_as_asyncio_timeout :: "bool \<Rightarrow> exc \<Rightarrow> bool" where
  "caught_as_asyncio_timeout aliased e = (e = AsyncioTimeoutError \<or> (aliased \<and> is_TimeoutError e))"

text \<open>
  An operation handed to \<open>await\<close>: left alone it completes after some number of time
  units, with a value or an exception, or it never completes. A call either returns,
  raises, or does not return.
\<close>

datatype 'a awaitable = Completes nat "exc + 'a" | Never

datatype 'a result = Return 'a | Raise exc | NoReturn

text \<open>\<open>TCP.TIMEOUT = 10\<close>.\<close>

definition TIMEOUT :: nat where
  "TIMEOUT = 10"

text \<open>A bare \<open>await op\<close>.\<close>

fun await :: "'a awaitable \<Rightarrow> 'a result" where
  "await (Completes d (Inr v)) = Return v"
| "await (Completes d (Inl e)) = Raise e"
| "await Never = NoReturn"

text \<open>
  \<open>await asyncio.wait_for(op, timeout)\<close>: the outcome of \<open>op\<close> when it completes within
  \<open>timeout\<close>, otherwise \<open>asyncio.TimeoutError\<close>.
\<close>

fun wait_for :: "'a awaitable \<Rightarrow> nat \<Rightarrow> 'a result" where
  "wait_for (Completes d r) timeout =
     (if d \<le> timeout then (case r of Inl e \<Rightarrow> Raise e | Inr v \<Rightarrow> Return v)
      else Raise AsyncioTimeoutError)"
| "wait_for Never timeout = Raise AsyncioTimeoutError"

section \<open>The stream reader and writer under the transport\<close>

text \<open>
  The \<open>asyncio.StreamReader\<close> is the environment of \<open>recv\<close>. Its state is what the
  peer will do: \<open>incoming\<close> lists, in order, what successive reads meet (bytes that become
  available after a delay, the empty byte string for end of stream, an exception, or
  nothing ever again; the exhausted list is a peer that stays silent), and \<open>read_calls\<close>
  records the size of every read that was issued.
\<close>

record stream_reader =
  incoming :: "bytes awaitable list"
  read_calls :: "nat list"

text \<open>
  \<open>self.reader.read(n)\<close> for \<open>n > 0\<close> (the only calls \<open>recv\<close> makes): at most \<open>n\<close> of
  the bytes that are available next.
\<close>

fun reader_read :: "stream_reader \<Rightarrow> nat \<Rightarrow> bytes awaitable" where
  "reader_read rd n =
     (case incoming rd of
        [] \<Rightarrow> Never
      | Never # rest \<Rightarrow> Never
      | Completes d (Inl e) # rest \<Rightarrow> Completes d (Inl e)
      | Completes d (Inr bs) # rest \<Rightarrow> Completes d (Inr (take n bs)))"

text \<open>
  The reader after \<open>wait_for(self.reader.read(n), timeout)\<close>: a read that was cut off by
  the timeout leaves its bytes to arrive later; bytes beyond the \<open>n\<close> that were taken stay
  buffered; end of stream stays.
\<close>

fun advance :: "bytes awaitable list \<Rightarrow> nat \<Rightarrow> nat \<Rightarrow> bytes awaitable list" where
  "advance [] n timeout = []"
| "advance (Never # rest) n timeout = Never # rest"
| "advance (Completes d (Inl e) # rest) n timeout =
     (if timeout < d then Completes (d - timeout) (Inl e) # rest else rest)"
| "advance (Completes d (Inr bs) # rest) n timeout =
     (if timeout < d then Completes (d - timeout) (Inr bs) # rest
      else if bs = [] then Completes 0 (Inr []) # rest
      else if drop n bs = [] then rest
      else Completes 0 (Inr (drop n bs)) # rest)"

definition reader_after :: "stream_reader \<Rightarrow> nat \<Rightarrow> nat \<Rightarrow> stream_reader" where
  "reader_after rd n timeout =
     \<lparr>incoming = advance (incoming rd) n timeout, read_calls = read_calls rd @ [n]\<rparr>"

text \<open>
  The \<open>asyncio.StreamWriter\<close> is the environment of the send worker and of \<open>close\<close>.
  \<open>written\<close> is what \<open>write\<close> accepted, in order. \<open>wscript\<close> lists what successive
  \<open>write\<close>/\<open>drain\<close> pairs meet: an exception out of \<open>write\<close>, or else the outcome of
  \<open>drain\<close>; the exhausted list is a writer that accepts and flushes at once.
  \<open>close_raises\<close> and \<open>wait_closed\<close> are what \<open>close()\<close> and \<open>wait_closed()\<close> do.
\<close>

datatype wstep = WStep "exc option" "unit awaitable"

record stream_writer =
  written :: "bytes list"
  wscript :: "wstep list"
  close_calls :: nat
  close_raises :: "exc option"
  wait_closed :: "unit awaitable"

text \<open>\<open>self.writer.write(data)\<close> followed by \<open>await self.writer.drain()\<close>.\<close>

fun write_drain :: "stream_writer \<Rightarrow> bytes \<Rightarrow> unit result \<times> stream_writer" where
  "write_drain w data =
     (case wscript w of
        [] \<Rightarrow> (Return (), w\<lparr>written := written w @ [data]\<rparr>)
      | WStep (Some e) dr # ws \<Rightarrow> (Raise e, w\<lparr>wscript := ws\<rparr>)
      | WStep None dr # ws \<Rightarrow> (await dr, w\<lparr>written := written w @ [data], wscript := ws\<rparr>))"

section \<open>The transport\<close>

datatype family = AF_INET | AF_INET6

record proxy_settings =
  proxy_type :: pyval
  addr :: pyval
  port :: pyval
  username :: pyval
  password :: pyval

text \<open>
  The socket: \<open>socks\<close> tells a \<open>socks.socksocket\<close> from a \<open>socket.socket\<close>;
  \<open>sock_timeout\<close> is \<open>None\<close> for a blocking socket, \<open>Some 0\<close> after
  \<open>setblocking(False)\<close>, \<open>Some n\<close> after \<open>settimeout(n)\<close>.
\<close>

record sock =
  sock_family :: family
  socks :: bool
  settings :: "proxy_settings option"
  sock_timeout :: "nat option"

text \<open>
  The state of the worker task: running (possibly suspended in \<open>send_queue.get()\<close>),
  suspended for good in a \<open>drain\<close> that never completes, or finished, normally or with an
  exception.
\<close>

datatype task = Running | Blocked | Finished "exc option"

datatype log_record = Info string "exc" | Warning string "exc" | InfoProxy pyval

text \<open>
  The fields of \<open>TCP\<close>. The proxy dictionary is an association list, \<open>None\<close> is Python's
  \<open>None\<close>. \<open>logged\<close> is what the module's logger received.
\<close>

record TCP =
  socket :: sock
  reader :: "stream_reader option"
  writer :: "stream_writer option"
  send_queue :: "bytes option list"
  send_task :: "task option"
  proxy :: "(string \<times> pyval) list option"
  logged :: "log_record list"

subsection \<open>recv\<close>

text \<open>
  The loop of \<open>recv\<close>, lines 124 to 138, from the accumulated \<open>data\<close>. The result
  \<open>Return None\<close> is \<open>return None\<close>; an exception that the clause
  \<open>except (OSError, asyncio.TimeoutError)\<close> does not catch propagates, as does the
  \<open>AttributeError\<close> of \<open>self.reader\<close> being \<open>None\<close>.
\<close>

function recv_loop :: "TCP \<Rightarrow> bytes \<Rightarrow> int \<Rightarrow> bytes option result \<times> TCP" where
  "recv_loop t data len =
     (if int (length data) < len then
        (case reader t of
           None \<Rightarrow> (Raise (AttributeError ''read''), t)
         | Some rd \<Rightarrow>
             (let n = nat (len - int (length data));
                  t' = t\<lparr>reader := Some (reader_after rd n TIMEOUT)\<rparr>
              in case wait_for (reader_read rd n) TIMEOUT of
                   Raise e \<Rightarrow>
                     (if is_OSError e \<or> e = AsyncioTimeoutError then (Return None, t')
                      else (Raise e, t'))
                 | NoReturn \<Rightarrow> (NoReturn, t')
                 | Return chunk \<Rightarrow>
                     (if chunk \<noteq> [] then recv_loop t' (data @ chunk) len
                      else (Return None, t'))))
      else (Return (Some data), t))"
  by pat_completeness auto
termination
  by (relation "measure (\<lambda>(t, data, len). nat (len - int (length data)))") auto

declare recv_loop.simps [simp del]

definition recv :: "TCP \<Rightarrow> int \<Rightarrow> bytes option result \<times> TCP" where
  "recv t len = recv_loop t [] len"

text \<open>
  The stream a reader supplies before anything else happens: the bytes of the leading
  reads that complete within \<open>TIMEOUT\<close> with at least one byte.
\<close>

fun supplied :: "bytes awaitable list \<Rightarrow> bytes" where
  "supplied [] = []"
| "supplied (Never # rest) = []"
| "supplied (Completes d (Inl e) # rest) = []"
| "supplied (Completes d (Inr bs) # rest) =
     (if d \<le> TIMEOUT \<and> bs \<noteq> [] then bs @ supplied rest else [])"

text \<open>
  What ends that stream is a failure of a chunk read: a read that does not complete within
  \<open>TIMEOUT\<close> (the silent peer included), a read of zero bytes, or a read that raises an
  \<open>OSError\<close> or \<open>asyncio.TimeoutError\<close>.
\<close>

fun breaks_off :: "bytes awaitable list \<Rightarrow> bool" where
  "breaks_off [] = True"
| "breaks_off (Never # rest) = True"
| "breaks_off (Completes d (Inl e) # rest) =
     (TIMEOUT < d \<or> is_OSError e \<or> e = AsyncioTimeoutError)"
| "breaks_off (Completes d (Inr bs) # rest) =
     (TIMEOUT < d \<or> bs = [] \<or> breaks_off rest)"

subsection \<open>send and the send worker\<close>

text \<open>\<open>send\<close>: \<open>await self.send_queue.put(data)\<close> on the unbounded queue.\<close>

definition send :: "TCP \<Rightarrow> bytes \<Rightarrow> unit result \<times> TCP" where
  "send t data = (Return (), t\<lparr>send_queue := send_queue t @ [Some data]\<rparr>)"

text \<open>
  The handler of the worker, lines 117 to 119: an instance of \<open>Exception\<close> is logged and
  \<open>OSError(e)\<close> ends the task; anything else ends the task as it is.
\<close>

definition send_failed :: "TCP \<Rightarrow> exc \<Rightarrow> TCP" where
  "send_failed t e =
     (if is_Exception e
      then t\<lparr>send_task := Some (Finished (Some (OSError_from e))),
             logged := logged t @ [Warning ''Send exception'' e]\<rparr>
      else t\<lparr>send_task := Some (Finished (Some e))\<rparr>)"

text \<open>
  One pass through the body of \<open>while True\<close>, lines 109 to 119, on a queue that holds an
  entry (on the empty queue \<open>get\<close> stays suspended and nothing changes).
\<close>

definition worker_iteration :: "TCP \<Rightarrow> TCP" where
  "worker_iteration t =
     (case send_queue t of
        [] \<Rightarrow> t
      | None # q \<Rightarrow> t\<lparr>send_queue := q, send_task := Some (Finished None)\<rparr>
      | Some data # q \<Rightarrow>
          (case writer t of
             None \<Rightarrow> send_failed (t\<lparr>send_queue := q\<rparr>) (AttributeError ''write'')
           | Some w \<Rightarrow>
               (case write_drain w data of
                  (Return u, w') \<Rightarrow> t\<lparr>writer := Some w', send_queue := q\<rparr>
                | (Raise e, w') \<Rightarrow> send_failed (t\<lparr>writer := Some w', send_queue := q\<rparr>) e
                | (NoReturn, w') \<Rightarrow>
                    t\<lparr>writer := Some w', send_queue := q, send_task := Some Blocked\<rparr>)))"

text \<open>
  \<open>send_worker\<close>: the task runs the loop for as long as it is alive and the queue holds
  entries.
\<close>

function send_worker :: "TCP \<Rightarrow> TCP" where
  "send_worker t =
     (if send_task t = Some Running \<and> send_queue t \<noteq> []
      then send_worker (worker_iteration t) else t)"
  by pat_completeness auto
termination
  by (relation "measure (\<lambda>t. length (send_queue t))")
     (auto simp: worker_iteration_def send_failed_def
           split: list.splits option.splits prod.splits result.splits)

declare send_worker.simps [simp del]

text \<open>The scheduler lets the worker task make one pass.\<close>

definition worker_runs :: "TCP \<Rightarrow> TCP" where
  "worker_runs t = (if send_task t = Some Running then worker_iteration t else t)"

subsection \<open>close\<close>

text \<open>
  The handler of \<open>close\<close>, lines 101 and 102.
\<close>

definition close_failed :: "TCP \<Rightarrow> exc \<Rightarrow> unit result \<times> TCP" where
  "close_failed t e =
     (if is_Exception e then (Return (), t\<lparr>logged := logged t @ [Info ''Close exception'' e]\<rparr>)
      else (Raise e, t))"

text \<open>Lines 97 to 102: \<open>self.writer.close()\<close> and the bounded \<open>wait_closed()\<close>.\<close>

definition close_writer :: "TCP \<Rightarrow> unit result \<times> TCP" where
  "close_writer t =
     (case writer t of
        None \<Rightarrow> (Return (), t)
      | Some w \<Rightarrow>
          (let t' = t\<lparr>writer := Some (w\<lparr>close_calls := Suc (close_calls w)\<rparr>)\<rparr>
           in case close_raises w of
                Some e \<Rightarrow> close_failed t' e
              | None \<Rightarrow>
                  (case wait_for (wait_closed w) TIMEOUT of
                     Return u \<Rightarrow> (Return (), t')
                   | Raise e \<Rightarrow> close_failed t' e
                   | NoReturn \<Rightarrow> (NoReturn, t'))))"

text \<open>
  \<open>close\<close>: the sentinel is queued; \<open>await self.send_task\<close> lets the worker run and
  hands back what the task finished with, an exception included; then the writer is closed.
\<close>

definition close :: "TCP \<Rightarrow> unit result \<times> TCP" where
  "close t =
     (let t1 = t\<lparr>send_queue := send_queue t @ [None]\<rparr>
      in case send_task t1 of
           None \<Rightarrow> close_writer t1
         | Some k \<Rightarrow>
             (let t2 = send_worker t1
              in case send_task t2 of
                   Some (Finished None) \<Rightarrow> close_writer t2
                 | Some (Finished (Some e)) \<Rightarrow> (Raise e, t2)
                 | _ \<Rightarrow> (NoReturn, t2)))"

subsection \<open>connect\<close>

text \<open>
  What the network does with one connection attempt: the non-blocking
  \<open>sock_connect\<close>, the blocking \<open>socket.connect\<close> of the proxy socket run in the
  executor, and \<open>asyncio.open_connection\<close>.
\<close>

type_synonym address = "string \<times> nat"

record network =
  sock_connect :: "address \<Rightarrow> unit awaitable"
  blocking_connect :: "address \<Rightarrow> unit awaitable"
  open_connection :: "(stream_reader \<times> stream_writer) awaitable"

text \<open>Truth value of the proxy argument: \<open>None\<close> and the empty dictionary are false.\<close>

fun truthy :: "(string \<times> pyval) list option \<Rightarrow> bool" where
  "truthy None = False"
| "truthy (Some d) = (d \<noteq> [])"

text \<open>
  Lines 79 to 86: the socket is connected, through the proxy or directly. The handler
  \<open>except asyncio.TimeoutError\<close> depends on the version of Python, \<open>aliased\<close>.
\<close>

definition connect_socket :: "bool \<Rightarrow> TCP \<Rightarrow> address \<Rightarrow> network \<Rightarrow> unit result" where
  "connect_socket aliased t address net =
     (if truthy (proxy t) then await (blocking_connect net address)
      else case wait_for (sock_connect net address) TIMEOUT of
             Raise e \<Rightarrow>
               (if caught_as_asyncio_timeout aliased e
                then Raise (TimeoutError ''Connection timed out'')
                else Raise e)
           | r \<Rightarrow> r)"

text \<open>\<open>connect\<close>: then the streams are opened and the worker task is created.\<close>

definition connect :: "bool \<Rightarrow> TCP \<Rightarrow> address \<Rightarrow> network \<Rightarrow> unit result \<times> TCP" where
  "connect aliased t address net =
     (case connect_socket aliased t address net of
        Raise e \<Rightarrow> (Raise e, t)
      | NoReturn \<Rightarrow> (NoReturn, t)
      | Return u \<Rightarrow>
          (case await (open_connection net) of
             Raise e \<Rightarrow> (Raise e, t)
           | NoReturn \<Rightarrow> (NoReturn, t)
           | Return (rd, wr) \<Rightarrow>
               (Return (), t\<lparr>reader := Some rd, writer := Some wr, send_task := Some Running\<rparr>)))"

subsection \<open>Construction\<close>

text \<open>
  What \<open>__init__\<close> takes from libraries: \<open>ipaddress.ip_address\<close> (\<open>None\<close> for its
  \<open>ValueError\<close>), \<open>str.upper\<close>, and the attributes of the module \<open>socks\<close>.
\<close>

datatype ip_address = IPv4Address | IPv6Address

record libs =
  ip_address_of :: "pyval \<Rightarrow> ip_address option"
  str_upper :: "string \<Rightarrow> string"
  socks_getattr :: "string \<Rightarrow> pyval option"

text \<open>\<open>d.get(k)\<close> and \<open>d.get(k, None)\<close>.\<close>

definition dict_get :: "(string \<times> pyval) list \<Rightarrow> string \<Rightarrow> pyval" where
  "dict_get d k = (case map_of d k of None \<Rightarrow> PNone | Some v \<Rightarrow> v)"

text \<open>Lines 49 to 57: the family of the proxy socket.\<close>

definition proxy_family :: "libs \<Rightarrow> pyval \<Rightarrow> family" where
  "proxy_family lib hostname =
     (case ip_address_of lib hostname of
        None \<Rightarrow> AF_INET
      | Some ip \<Rightarrow> (if ip = IPv6Address then AF_INET6 else AF_INET))"

text \<open>\<open>getattr(socks, proxy.get("scheme").upper())\<close>.\<close>

definition scheme_type :: "libs \<Rightarrow> pyval \<Rightarrow> exc + pyval" where
  "scheme_type lib scheme =
     (case scheme of
        PStr s \<Rightarrow>
          (case socks_getattr lib (str_upper lib s) of
             None \<Rightarrow> Inl (AttributeError (str_upper lib s))
           | Some v \<Rightarrow> Inr v)
      | _ \<Rightarrow> Inl (AttributeError ''upper''))"

definition TCP_init :: "libs \<Rightarrow> bool \<Rightarrow> (string \<times> pyval) list option \<Rightarrow> exc + TCP" where
  "TCP_init lib ipv6 prx =
     (let fresh = (\<lambda>s l. \<lparr>socket = s, reader = None, writer = None, send_queue = [],
                          send_task = None, proxy = prx, logged = l\<rparr>)
      in if truthy prx then
           (let d = (case prx of None \<Rightarrow> [] | Some d \<Rightarrow> d);
                hostname = dict_get d ''hostname'';
                fam = proxy_family lib hostname
            in case scheme_type lib (dict_get d ''scheme'') of
                 Inl e \<Rightarrow> Inl e
               | Inr pt \<Rightarrow>
                   Inr (fresh
                     \<lparr>sock_family = fam, socks = True,
                      settings = Some \<lparr>proxy_type = pt, addr = hostname,
                                       port = dict_get d ''port'',
                                       username = dict_get d ''username'',
                                       password = dict_get d ''password''\<rparr>,
                      sock_timeout = Some TIMEOUT\<rparr>
                     [InfoProxy hostname]))
         else
           Inr (fresh
             \<lparr>sock_family = (if ipv6 then AF_INET6 else AF_INET), socks = False,
              settings = None, sock_timeout = Some 0\<rparr>
             []))"

section \<open>delete_forum_topic\<close>

text \<open>
  \<open>resolve_peer\<close> and \<open>invoke\<close> are methods of the client, taken as they come;
  \<open>DeleteTopicHistory\<close> is the raw function built from their arguments. \<open>print(e)\<close>
  is what the standard output makes of it: \<open>None\<close> when the text was written, \<open>Some x\<close>
  when \<open>print\<close> raises \<open>x\<close> (the stream is closed, the text cannot be encoded). The
  second component of the result is what was printed.
\<close>

datatype chat_id = ChatInt int | ChatStr string

record 'p DeleteTopicHistory =
  channel :: 'p
  top_msg_id :: int

record ('p, 'r) Client =
  resolve_peer :: "chat_id \<Rightarrow> 'p result"
  invoke :: "'p DeleteTopicHistory \<Rightarrow> 'r result"

text \<open>
  Lines 56 to 58: the handler takes an instance of \<open>Exception\<close>, prints it and returns
  \<open>False\<close>; an exception out of \<open>print\<close> leaves the handler.
\<close>

definition topic_failed :: "(exc \<Rightarrow> exc option) \<Rightarrow> exc \<Rightarrow> bool result \<times> exc list" where
  "topic_failed print e =
     (if is_Exception e
      then (case print e of None \<Rightarrow> (Return False, [e]) | Some x \<Rightarrow> (Raise x, []))
      else (Raise e, []))"

definition delete_forum_topic ::
  "(exc \<Rightarrow> exc option) \<Rightarrow> ('p, 'r) Client \<Rightarrow> chat_id \<Rightarrow> int \<Rightarrow> bool result \<times> exc list" where
  "delete_forum_topic print self cid topic_id =
     (case resolve_peer self cid of
        Raise e \<Rightarrow> topic_failed print e
      | NoReturn \<Rightarrow> (NoReturn, [])
      | Return peer \<Rightarrow>
          (case invoke self \<lparr>channel = peer, top_msg_id = topic_id\<rparr> of
             Raise e \<Rightarrow> topic_failed print e
           | NoReturn \<Rightarrow> (NoReturn, [])
           | Return r \<Rightarrow> (Return True, [])))"

section \<open>Runs of the transport and example states\<close>

text \<open>
  The caller and the worker task take turns under the scheduler: a run is a list of calls
  of \<open>send\<close> and of passes of the worker.
\<close>

datatype event = CallSend bytes | WorkerPass

fun run :: "TCP \<Rightarrow> event list \<Rightarrow> TCP" where
  "run t [] = t"
| "run t (CallSend data # es) = run (snd (send t data)) es"
| "run t (WorkerPass # es) = run (worker_runs t) es"


text \<open>What reached the socket, and the payloads that wait in a queue.\<close>

definition wire :: "TCP \<Rightarrow> bytes list" where
  "wire t = (case writer t of None \<Rightarrow> [] | Some w \<Rightarrow> written w)"




text \<open>An awaited operation that is not done when \<open>TIMEOUT\<close> has passed.\<close>

fun exceeds :: "'a awaitable \<Rightarrow> bool" where
  "exceeds Never = True"
| "exceeds (Completes d r) = (TIMEOUT < d)"

text \<open>
  A transport as \<open>TCP(ipv6=False, proxy=None)\<close> makes it, a writer that has seen nothing
  yet, and the transport after a successful \<open>connect\<close> to a peer with the given behaviour.
\<close>

definition plain_tcp :: TCP where
  "plain_tcp =
     \<lparr>socket = \<lparr>sock_family = AF_INET, socks = False, settings = None, sock_timeout = Some 0\<rparr>,
      reader = None, writer = None, send_queue = [], send_task = None, proxy = None,
      logged = []\<rparr>"

definition fresh_writer :: "wstep list \<Rightarrow> stream_writer" where
  "fresh_writer ws =
     \<lparr>written = [], wscript = ws, close_calls = 0, close_raises = None,
      wait_closed = Completes 0 (Inr ())\<rparr>"

definition connected :: "bytes awaitable list \<Rightarrow> wstep list \<Rightarrow> TCP" where
  "connected inc ws =
     plain_tcp\<lparr>reader := Some \<lparr>incoming = inc, read_calls = []\<rparr>,
               writer := Some (fresh_writer ws), send_task := Some Running\<rparr>"

text \<open>
  Library functions for examples: \<open>::1\<close> and \<open>127.0.0.1\<close> are the address
  literals, \<open>SOCKS5\<close> is the one attribute of \<open>socks\<close>.
\<close>

definition example_libs :: libs where
  "example_libs =
     \<lparr>ip_address_of = (\<lambda>v. if v = PStr ''::1'' then Some IPv6Address
                             else if v = PStr ''127.0.0.1'' then Some IPv4Address else None),
      str_upper = (\<lambda>s. if s = ''socks5'' then ''SOCKS5'' else s),
      socks_getattr = (\<lambda>s. if s = ''SOCKS5'' then Some (PInt 2) else None)\<rparr>"

section \<open>Properties of recv\<close>

lemma recv_loop_done:
  "\<not> int (length data) < len \<Longrightarrow> recv_loop t data len = (Return (Some data), t)"
  by (subst recv_loop.simps) simp

lemma recv_loop_step:
  "int (length data) < len \<Longrightarrow> reader t = Some rd \<Longrightarrow>
   recv_loop t data len =
     (let n = nat (len - int (length data));
          t' = t\<lparr>reader := Some (reader_after rd n TIMEOUT)\<rparr>
      in case wait_for (reader_read rd n) TIMEOUT of
           Raise e \<Rightarrow>
             (if is_OSError e \<or> e = AsyncioTimeoutError then (Return None, t')
              else (Raise e, t'))
         | NoReturn \<Rightarrow> (NoReturn, t')
         | Return chunk \<Rightarrow>
             (if chunk \<noteq> [] then recv_loop t' (data @ chunk) len
              else (Return None, t')))"
  by (subst recv_loop.simps) simp

lemma wait_for_read_length:
  "wait_for (reader_read rd n) timeout = Return chunk \<Longrightarrow> length chunk \<le> n"
  by (auto split: list.splits awaitable.splits sum.splits if_splits)

text \<open>
  While the supplied stream covers what is still missing, the loop returns the accumulated
  bytes followed by the next bytes of the stream.
\<close>

lemma recv_loop_supplied:
  "reader t = Some rd \<Longrightarrow> len - int (length data) \<le> int (length (supplied (incoming rd))) \<Longrightarrow>
   fst (recv_loop t data len) =
     Return (Some (data @ take (nat (len - int (length data))) (supplied (incoming rd))))"
proof (induction "nat (len - int (length data))" arbitrary: t data rd rule: less_induct)
  case less
  show ?case
  proof (cases "int (length data) < len")
    case False
    then show ?thesis by (simp add: recv_loop_done)
  next
    case True
    define n where "n = nat (len - int (length data))"
    have npos: "0 < n" using True by (simp add: n_def)
    have "supplied (incoming rd) \<noteq> []" using less.prems(2) True by auto
    then obtain d bs rest where inc: "incoming rd = Completes d (Inr bs) # rest"
      and d: "d \<le> TIMEOUT" and bs: "bs \<noteq> []"
      by (cases "incoming rd" rule: supplied.cases) (auto split: if_splits)
    define t' where "t' = t\<lparr>reader := Some (reader_after rd n TIMEOUT)\<rparr>"
    define chunk where "chunk = take n bs"
    have cne: "chunk \<noteq> []" using npos bs by (simp add: chunk_def)
    have clen: "length chunk \<le> n" by (simp add: chunk_def)
    have "wait_for (reader_read rd n) TIMEOUT = Return chunk"
      using inc d by (simp add: chunk_def)
    then have step: "recv_loop t data len = recv_loop t' (data @ chunk) len"
      using recv_loop_step [OF True less.prems(1)] cne
      by (simp add: Let_def n_def t'_def)
    have sup: "supplied (incoming rd) = bs @ supplied rest" using inc d bs by simp
    have sup': "supplied (incoming (reader_after rd n TIMEOUT)) = drop n bs @ supplied rest"
      using inc d bs by (simp add: reader_after_def)
    have rd': "reader t' = Some (reader_after rd n TIMEOUT)" by (simp add: t'_def)
    have m: "nat (len - int (length (data @ chunk))) < nat (len - int (length data))"
      using cne True by (cases chunk) auto
    have le': "len - int (length (data @ chunk))
                 \<le> int (length (supplied (incoming (reader_after rd n TIMEOUT))))"
      using less.prems(2) sup sup' by (simp add: chunk_def n_def)
    have rest_n: "nat (len - int (length (data @ chunk))) = n - length chunk"
      using True clen by (simp add: n_def)
    have "fst (recv_loop t' (data @ chunk) len) =
          Return (Some ((data @ chunk) @ take (n - length chunk) (drop n bs @ supplied rest)))"
      using less.hyps [OF m rd' le'] by (simp only: rest_n sup')
    moreover have "chunk @ take (n - length chunk) (drop n bs @ supplied rest)
                     = take n (bs @ supplied rest)"
      by (cases "n \<le> length bs") (simp_all add: chunk_def min_def)
    ultimately show ?thesis using step sup by (simp add: n_def)
  qed
qed

text \<open>A byte result of the loop has the requested length.\<close>

lemma recv_loop_exact:
  "fst (recv_loop t data len) = Return (Some r) \<Longrightarrow> int (length data) \<le> len \<Longrightarrow>
   int (length r) = len"
proof (induction "nat (len - int (length data))" arbitrary: t data rule: less_induct)
  case less
  show ?case
  proof (cases "int (length data) < len")
    case False
    with less.prems show ?thesis by (simp add: recv_loop_done)
  next
    case True
    show ?thesis
    proof (cases "reader t")
      case None
      then have "recv_loop t data len = (Raise (AttributeError ''read''), t)"
        using True by (subst recv_loop.simps) simp
      with less.prems show ?thesis by simp
    next
      case (Some rd)
      define n where "n = nat (len - int (length data))"
      define t' where "t' = t\<lparr>reader := Some (reader_after rd n TIMEOUT)\<rparr>"
      note st = recv_loop_step [OF True Some, folded n_def, unfolded Let_def, folded t'_def]
      show ?thesis
      proof (cases "wait_for (reader_read rd n) TIMEOUT")
        case (Return chunk)
        show ?thesis
        proof (cases "chunk = []")
          case True
          with st Return less.prems show ?thesis by simp
        next
          case False
          have eq: "recv_loop t data len = recv_loop t' (data @ chunk) len"
            using st Return False by simp
          have "length chunk \<le> n" using Return by (rule wait_for_read_length)
          then have le: "int (length (data @ chunk)) \<le> len" using True by (simp add: n_def)
          have m: "nat (len - int (length (data @ chunk))) < nat (len - int (length data))"
            using False True by (cases chunk) auto
          show ?thesis using less.hyps [OF m _ le] less.prems(1) eq by simp
        qed
      next
        case (Raise e)
        with st less.prems show ?thesis by (simp split: if_splits)
      next
        case NoReturn
        with st less.prems show ?thesis by simp
      qed
    qed
  qed
qed

text \<open>
  When the stream breaks off by a failed chunk read before the missing bytes have come,
  the loop returns \<open>None\<close>.
\<close>

lemma recv_loop_breaks_off:
  "reader t = Some rd \<Longrightarrow> int (length (supplied (incoming rd))) < len - int (length data) \<Longrightarrow>
   breaks_off (incoming rd) \<Longrightarrow> fst (recv_loop t data len) = Return None"
proof (induction "nat (len - int (length data))" arbitrary: t data rd rule: less_induct)
  case less
  have lt: "int (length data) < len" using less.prems(2) by linarith
  define n where "n = nat (len - int (length data))"
  define t' where "t' = t\<lparr>reader := Some (reader_after rd n TIMEOUT)\<rparr>"
  note st = recv_loop_step [OF lt less.prems(1), folded n_def, unfolded Let_def, folded t'_def]
  show ?case
  proof (cases "incoming rd" rule: supplied.cases)
    case 1
    then show ?thesis using st by simp
  next
    case (2 rest)
    then show ?thesis using st by simp
  next
    case (3 d e rest)
    then show ?thesis using st less.prems(3) by auto
  next
    case (4 d bs rest)
    show ?thesis
    proof (cases "d \<le> TIMEOUT \<and> bs \<noteq> []")
      case False
      then show ?thesis using st 4 by auto
    next
      case True
      then have sup: "supplied (incoming rd) = bs @ supplied rest" using 4 by simp
      then have short: "length bs < n" using less.prems(2) by (simp add: n_def)
      then have tk: "take n bs = bs" and dr: "drop n bs = []" by simp_all
      have eq: "recv_loop t data len = recv_loop t' (data @ bs) len"
        using st 4 True tk by simp
      have rd': "reader t' = Some (reader_after rd n TIMEOUT)" by (simp add: t'_def)
      have inc': "incoming (reader_after rd n TIMEOUT) = rest"
        using 4 True dr by (simp add: reader_after_def)
      have m: "nat (len - int (length (data @ bs))) < nat (len - int (length data))"
        using True lt by (cases bs) auto
      have s': "int (length (supplied (incoming (reader_after rd n TIMEOUT))))
                  < len - int (length (data @ bs))"
        using less.prems(2) sup inc' by simp
      have b': "breaks_off (incoming (reader_after rd n TIMEOUT))"
        using less.prems(3) 4 True inc' by simp
      show ?thesis using less.hyps [OF m rd' s' b'] eq by simp
    qed
  qed
qed

text \<open>
  C1. \<open>recv\<close> is all-or-nothing: for a positive \<open>len\<close>, when the chunk reads supply at
  least \<open>len\<close> bytes before one of them times out, raises or returns zero bytes, \<open>recv\<close>
  returns the first \<open>len\<close> bytes of that stream in order; and whatever the reader does, a
  byte result of \<open>recv\<close> has exactly \<open>len\<close> bytes, never fewer.
\<close>

theorem recv_all_or_nothing:
  "0 < len \<Longrightarrow>
   (\<forall>rd. reader t = Some rd \<and> len \<le> int (length (supplied (incoming rd))) \<longrightarrow>
      fst (recv t len) = Return (Some (take (nat len) (supplied (incoming rd)))))
   \<and> (\<forall>r. fst (recv t len) = Return (Some r) \<longrightarrow> int (length r) = len)"
proof (intro conjI allI impI)
  fix rd
  assume "reader t = Some rd \<and> len \<le> int (length (supplied (incoming rd)))"
  then show "fst (recv t len) = Return (Some (take (nat len) (supplied (incoming rd))))"
    using recv_loop_supplied [of t rd len "[]"] by (simp add: recv_def)
next
  fix r
  assume "0 < len" and "fst (recv t len) = Return (Some r)"
  then show "int (length r) = len"
    using recv_loop_exact [of t "[]" len r] by (simp add: recv_def)
qed

theorem recv_all_or_nothing_witness:
  "fst (recv (connected [Completes 1 (Inr ''ab''), Completes 3 (Inr ''cde''),
                         Completes 0 (Inr [])] []) 4) = Return (Some ''abcd'')
   \<and> int (length ''abcd'') = 4"
  using recv_all_or_nothing
    [of 4 "connected [Completes 1 (Inr ''ab''), Completes 3 (Inr ''cde''),
                      Completes 0 (Inr [])] []"]
  by (simp add: connected_def TIMEOUT_def)

text \<open>
  C4. \<open>recv\<close> returns the one value \<open>None\<close> in every failure case: when a chunk read
  returns zero bytes, times out, or raises an \<open>OSError\<close> before \<open>len\<close> bytes have
  accumulated, the call returns \<open>None\<close>, the same value for each cause.
\<close>

theorem recv_failure_is_None:
  "reader t = Some rd \<Longrightarrow> int (length (supplied (incoming rd))) < len \<Longrightarrow>
   breaks_off (incoming rd) \<Longrightarrow> fst (recv t len) = Return None"
  using recv_loop_breaks_off [of t rd len "[]"] by (simp add: recv_def)

theorem recv_failure_is_None_witness:
  "fst (recv (connected [Completes 1 (Inr ''ab''), Completes 0 (Inr [])] []) 4) = Return None
   \<and> fst (recv (connected [Completes 1 (Inr ''ab''), Completes 11 (Inr ''cd'')] []) 4)
       = Return None
   \<and> fst (recv (connected [Completes 1 (Inr ''ab''),
                           Completes 2 (Inl (OSError ''Connection reset by peer''))] []) 4)
       = Return None"
  using
    recv_failure_is_None
      [of "connected [Completes 1 (Inr ''ab''), Completes 0 (Inr [])] []"
          "\<lparr>incoming = [Completes 1 (Inr ''ab''), Completes 0 (Inr [])], read_calls = []\<rparr>" 4]
    recv_failure_is_None
      [of "connected [Completes 1 (Inr ''ab''), Completes 11 (Inr ''cd'')] []"
          "\<lparr>incoming = [Completes 1 (Inr ''ab''), Completes 11 (Inr ''cd'')], read_calls = []\<rparr>" 4]
    recv_failure_is_None
      [of "connected [Completes 1 (Inr ''ab''),
                      Completes 2 (Inl (OSError ''Connection reset by peer''))] []"
          "\<lparr>incoming = [Completes 1 (Inr ''ab''),
                        Completes 2 (Inl (OSError ''Connection reset by peer''))],
            read_calls = []\<rparr>" 4]
  by (simp add: connected_def TIMEOUT_def)

text \<open>
  C9. \<open>recv(0)\<close> returns the empty byte string at once, in every state of the transport,
  connected or not: the transport is unchanged, so no read was issued on the reader.
\<close>

theorem recv_zero_no_read:
  "recv t 0 = (Return (Some []), t)"
  by (simp add: recv_def recv_loop_done)

section \<open>Properties of the send path\<close>

lemma send_worker_stop:
  "\<not> (send_task t = Some Running \<and> send_queue t \<noteq> []) \<Longrightarrow> send_worker t = t"
  by (subst send_worker.simps) auto

lemma send_worker_step:
  "send_task t = Some Running \<Longrightarrow> send_queue t \<noteq> [] \<Longrightarrow>
   send_worker t = send_worker (worker_iteration t)"
  by (subst send_worker.simps) simp




lemma wire_send [simp]: "wire (snd (send t data)) = wire t"
  by (simp add: send_def wire_def)















section \<open>Properties of close\<close>

lemma close_reraises:
  "send_task t = Some (Finished (Some e)) \<Longrightarrow>
   close t = (Raise e, t\<lparr>send_queue := send_queue t @ [None]\<rparr>)"
  by (simp add: close_def Let_def send_worker_stop)

lemma close_after_graceful_stop:
  "send_task t = Some (Finished None) \<Longrightarrow>
   close t = close_writer (t\<lparr>send_queue := send_queue t @ [None]\<rparr>)"
  by (simp add: close_def Let_def send_worker_stop)

lemma close_writer_swallows:
  "fst (close_writer t) = Raise e \<Longrightarrow> \<not> is_Exception e"
  by (auto simp: close_writer_def close_failed_def Let_def
           split: option.splits result.splits if_splits)

text \<open>
  C2. \<open>close\<close> raises to its caller when the worker has finished with a Send error:
  after \<open>send(b"ping")\<close> on a writer whose \<open>write\<close> raises \<open>OSError\<close>, the worker
  finishes with \<open>OSError(e)\<close>; \<open>await self.send_task\<close> stands before the \<open>try\<close>
  and raises it again, and \<open>self.writer.close()\<close> is never reached.
\<close>

theorem close_reraises_send_error:
  "fst (close (run (connected [] [WStep (Some (OSError ''Broken pipe'')) (Completes 0 (Inr ()))])
                 [CallSend ''ping'', WorkerPass]))
     = Raise (OSError_from (OSError ''Broken pipe''))
   \<and> map_option close_calls
        (writer (snd (close (run (connected [] [WStep (Some (OSError ''Broken pipe''))
                                                  (Completes 0 (Inr ()))])
                               [CallSend ''ping'', WorkerPass]))))
     = Some 0"
  by (simp add: connected_def plain_tcp_def fresh_writer_def send_def worker_runs_def
        worker_iteration_def send_failed_def close_reraises)

section \<open>Timeouts\<close>

lemma wait_for_exceeds: "exceeds op \<Longrightarrow> wait_for op TIMEOUT = Raise AsyncioTimeoutError"
  by (cases op) auto

text \<open>
  C3, as stated, fails for the flush: \<open>await self.writer.drain()\<close> is under no
  \<open>wait_for\<close>. With a \<open>drain\<close> that never completes the worker stays suspended, no
  Send error is raised or logged, and \<open>close\<close> does not return; with a \<open>drain\<close> that
  takes 11 time units the worker carries on as if nothing had happened.
\<close>

theorem flush_has_no_timeout:
  "send_task (run (connected [] [WStep None Never]) [CallSend ''x'', WorkerPass]) = Some Blocked
   \<and> logged (run (connected [] [WStep None Never]) [CallSend ''x'', WorkerPass]) = []
   \<and> fst (close (run (connected [] [WStep None Never]) [CallSend ''x''])) = NoReturn
   \<and> exceeds (Completes 11 (Inr ()) :: unit awaitable)
   \<and> send_task (run (connected [] [WStep None (Completes 11 (Inr ()))])
                  [CallSend ''x'', WorkerPass]) = Some Running
   \<and> logged (run (connected [] [WStep None (Completes 11 (Inr ()))])
                  [CallSend ''x'', WorkerPass]) = []"
  by (simp add: connected_def plain_tcp_def fresh_writer_def send_def worker_runs_def
        worker_iteration_def send_failed_def close_def Let_def send_worker_step send_worker_stop
        TIMEOUT_def)

text \<open>
  C3, amended. \<open>TIMEOUT\<close> is 10 and bounds the non-proxy connect, each chunk read of
  \<open>recv\<close> and the close handshake: when the awaited step is not done within
  \<open>TIMEOUT\<close>, \<open>connect\<close> raises \<open>TimeoutError\<close>, \<open>recv\<close> returns \<open>None\<close>, and
  \<open>close\<close> logs the timeout and returns. The flush of the worker is awaited without a
  bound: a \<open>drain\<close> that never completes leaves the worker suspended with nothing
  logged, and one that completes, however late, lets the worker go on with the payload
  written.
\<close>

theorem timeout_bounds_connect_recv_close:
  "TIMEOUT = 10
   \<and> (\<not> truthy (proxy t) \<and> exceeds (sock_connect net address) \<longrightarrow>
        connect aliased t address net = (Raise (TimeoutError ''Connection timed out''), t))
   \<and> (reader t = Some rd \<and> int (length data) < len
        \<and> exceeds (reader_read rd (nat (len - int (length data)))) \<longrightarrow>
        fst (recv_loop t data len) = Return None)
   \<and> (writer t = Some w \<and> close_raises w = None \<and> exceeds (wait_closed w) \<longrightarrow>
        close_writer t =
          (Return (),
           t\<lparr>writer := Some (w\<lparr>close_calls := Suc (close_calls w)\<rparr>),
             logged := logged t @ [Info ''Close exception'' AsyncioTimeoutError]\<rparr>))
   \<and> (writer t = Some w \<and> send_queue t = Some data # q \<and> wscript w = WStep None Never # ws \<longrightarrow>
        send_task (worker_iteration t) = Some Blocked
        \<and> logged (worker_iteration t) = logged t)
   \<and> (writer t = Some w \<and> send_queue t = Some data # q
        \<and> wscript w = WStep None (Completes d (Inr ())) # ws \<longrightarrow>
        send_task (worker_iteration t) = send_task t
        \<and> logged (worker_iteration t) = logged t
        \<and> wire (worker_iteration t) = wire t @ [data])"
proof (intro conjI impI)
  show "TIMEOUT = 10" by (simp add: TIMEOUT_def)
next
  assume "\<not> truthy (proxy t) \<and> exceeds (sock_connect net address)"
  then show "connect aliased t address net = (Raise (TimeoutError ''Connection timed out''), t)"
    by (simp add: connect_def connect_socket_def caught_as_asyncio_timeout_def wait_for_exceeds)
next
  assume a: "reader t = Some rd \<and> int (length data) < len
        \<and> exceeds (reader_read rd (nat (len - int (length data))))"
  then have "wait_for (reader_read rd (nat (len - int (length data)))) TIMEOUT
               = Raise AsyncioTimeoutError"
    by (simp only: wait_for_exceeds)
  then show "fst (recv_loop t data len) = Return None"
    using a recv_loop_step [of data len t rd] by (simp add: Let_def)
next
  assume "writer t = Some w \<and> close_raises w = None \<and> exceeds (wait_closed w)"
  then show "close_writer t =
          (Return (),
           t\<lparr>writer := Some (w\<lparr>close_calls := Suc (close_calls w)\<rparr>),
             logged := logged t @ [Info ''Close exception'' AsyncioTimeoutError]\<rparr>)"
    by (simp add: close_writer_def close_failed_def Let_def wait_for_exceeds)
next
  assume a: "writer t = Some w \<and> send_queue t = Some data # q \<and> wscript w = WStep None Never # ws"
  then show "send_task (worker_iteration t) = Some Blocked"
    by (simp add: worker_iteration_def)
  from a show "logged (worker_iteration t) = logged t"
    by (simp add: worker_iteration_def)
next
  assume a: "writer t = Some w \<and> send_queue t = Some data # q
        \<and> wscript w = WStep None (Completes d (Inr ())) # ws"
  then show "send_task (worker_iteration t) = send_task t"
    by (simp add: worker_iteration_def)
  from a show "logged (worker_iteration t) = logged t"
    by (simp add: worker_iteration_def)
  from a show "wire (worker_iteration t) = wire t @ [data]"
    by (simp add: worker_iteration_def wire_def)
qed

theorem timeout_bounds_connect_recv_close_witness:
  "connect True plain_tcp (''example-host'', 443)
     \<lparr>sock_connect = (\<lambda>a. Completes 11 (Inr ())), blocking_connect = (\<lambda>a. Never),
      open_connection = Never\<rparr>
     = (Raise (TimeoutError ''Connection timed out''), plain_tcp)
   \<and> fst (recv_loop (connected [Completes 11 (Inr ''late'')] []) ''ab'' 4) = Return None
   \<and> fst (close_writer
        ((connected [] [])\<lparr>writer := Some ((fresh_writer [])\<lparr>wait_closed := Never\<rparr>)\<rparr>))
     = Return ()
   \<and> send_task (worker_iteration
        ((connected [] [WStep None Never])\<lparr>send_queue := [Some ''x'']\<rparr>)) = Some Blocked
   \<and> send_task (worker_iteration
        ((connected [] [WStep None (Completes 11 (Inr ()))])\<lparr>send_queue := [Some ''x'']\<rparr>))
     = Some Running"
  using
    timeout_bounds_connect_recv_close
      [where aliased = True and t = plain_tcp and address = "(''example-host'', 443)"
         and net = "\<lparr>sock_connect = (\<lambda>a. Completes 11 (Inr ())),
                     blocking_connect = (\<lambda>a. Never), open_connection = Never\<rparr>",
       THEN conjunct2, THEN conjunct1]
    timeout_bounds_connect_recv_close
      [where t = "connected [Completes 11 (Inr ''late'')] []"
         and rd = "\<lparr>incoming = [Completes 11 (Inr ''late'')], read_calls = []\<rparr>"
         and data = "''ab''" and len = 4,
       THEN conjunct2, THEN conjunct2, THEN conjunct1]
    timeout_bounds_connect_recv_close
      [where t = "(connected [] [])\<lparr>writer := Some ((fresh_writer [])\<lparr>wait_closed := Never\<rparr>)\<rparr>"
         and w = "(fresh_writer [])\<lparr>wait_closed := Never\<rparr>",
       THEN conjunct2, THEN conjunct2, THEN conjunct2, THEN conjunct1]
    timeout_bounds_connect_recv_close
      [where t = "(connected [] [WStep None Never])\<lparr>send_queue := [Some ''x'']\<rparr>"
         and w = "fresh_writer [WStep None Never]" and data = "''x''" and q = "[]" and ws = "[]",
       THEN conjunct2, THEN conjunct2, THEN conjunct2, THEN conjunct2, THEN conjunct1]
    timeout_bounds_connect_recv_close
      [where t = "(connected [] [WStep None (Completes 11 (Inr ()))])\<lparr>send_queue := [Some ''x'']\<rparr>"
         and w = "fresh_writer [WStep None (Completes 11 (Inr ()))]" and data = "''x''"
         and q = "[]" and ws = "[]" and d = 11,
       THEN conjunct2, THEN conjunct2, THEN conjunct2, THEN conjunct2, THEN conjunct2]
  by (simp add: connected_def plain_tcp_def fresh_writer_def TIMEOUT_def)

section \<open>Properties of connect and of the construction\<close>





text \<open>
  C7. With a proxy dictionary, the constructed transport has a \<open>socks\<close> socket whose
  family is \<open>AF_INET6\<close> when \<open>ip_address\<close> makes an \<open>IPv6Address\<close> of the
  hostname, and \<open>AF_INET\<close> in every other case (an \<open>IPv4Address\<close> or a
  \<open>ValueError\<close>); construction succeeds whenever the scheme names an attribute of
  \<open>socks\<close>. Without a proxy the socket is a plain one and the \<open>ipv6\<close> flag alone
  gives the family.
\<close>

theorem init_socket_family:
  "(\<forall>d. prx = Some d \<and> d \<noteq> [] \<longrightarrow>
      (\<forall>t. TCP_init lib ipv6 prx = Inr t \<longrightarrow>
         socks (socket t) \<and>
         sock_family (socket t) =
           (if ip_address_of lib (dict_get d ''hostname'') = Some IPv6Address
            then AF_INET6 else AF_INET))
      \<and> (\<forall>pt. scheme_type lib (dict_get d ''scheme'') = Inr pt \<longrightarrow>
            (\<exists>t. TCP_init lib ipv6 prx = Inr t)))
   \<and> (\<not> truthy prx \<longrightarrow>
        (\<exists>t. TCP_init lib ipv6 prx = Inr t \<and> \<not> socks (socket t) \<and>
             sock_family (socket t) = (if ipv6 then AF_INET6 else AF_INET)))"
  by (auto simp: TCP_init_def proxy_family_def Let_def split: sum.splits option.splits)

theorem init_socket_family_witness:
  "(\<exists>t. TCP_init example_libs False
          (Some [(''scheme'', PStr ''socks5''), (''hostname'', PStr ''::1''), (''port'', PInt 1080)])
        = Inr t \<and> socks (socket t) \<and> sock_family (socket t) = AF_INET6)
   \<and> (\<exists>t. TCP_init example_libs True
          (Some [(''scheme'', PStr ''socks5''), (''hostname'', PStr ''proxy.example'')])
        = Inr t \<and> socks (socket t) \<and> sock_family (socket t) = AF_INET)
   \<and> (\<exists>t. TCP_init example_libs True None = Inr t \<and> \<not> socks (socket t)
          \<and> sock_family (socket t) = AF_INET6)"
  using
    init_socket_family [of "Some [(''scheme'', PStr ''socks5''), (''hostname'', PStr ''::1''), (''port'', PInt 1080)]" example_libs False]
    init_socket_family [of "Some [(''scheme'', PStr ''socks5''), (''hostname'', PStr ''proxy.example'')]" example_libs True]
    init_socket_family [of None example_libs True]
  by (simp add: example_libs_def dict_get_def scheme_type_def TCP_init_def proxy_family_def Let_def)

section \<open>Properties of delete_forum_topic\<close>

text \<open>
  C10, as stated, fails: \<open>except Exception\<close> does not catch \<open>asyncio.CancelledError\<close>,
  which derives from \<open>BaseException\<close>, so raised in \<open>invoke\<close> or in
  \<open>resolve_peer\<close> it reaches the caller; and an exception out of \<open>print(e)\<close>, raised
  inside the handler, reaches the caller too.
\<close>

theorem delete_forum_topic_propagates:
  "fst (delete_forum_topic (\<lambda>e. None)
          \<lparr>resolve_peer = (\<lambda>c. Return (5::nat)),
           invoke = (\<lambda>f. (Raise CancelledError :: unit result))\<rparr>
          (ChatInt 1) 7) = Raise CancelledError
   \<and> fst (delete_forum_topic (\<lambda>e. None)
          \<lparr>resolve_peer = (\<lambda>c. (Raise CancelledError :: nat result)),
           invoke = (\<lambda>f. (Return () :: unit result))\<rparr>
          (ChatInt 1) 7) = Raise CancelledError
   \<and> fst (delete_forum_topic (\<lambda>e. Some (ValueError ''I/O operation on closed file.''))
          \<lparr>resolve_peer = (\<lambda>c. Return (5::nat)),
           invoke = (\<lambda>f. (Raise (RPCError ''CHANNEL_INVALID'') :: unit result))\<rparr>
          (ChatInt 1) 7) = Raise (ValueError ''I/O operation on closed file.'')"
  by (simp add: delete_forum_topic_def topic_failed_def)

text \<open>
  C10, amended. \<open>delete_forum_topic\<close> returns \<open>True\<close> when \<open>resolve_peer\<close> and
  \<open>invoke\<close> both return. When either of them raises an instance of \<open>Exception\<close>, it
  prints the exception and returns \<open>False\<close>, unless \<open>print\<close> raises, and then that
  exception reaches the caller. An exception that is no instance of \<open>Exception\<close>,
  raised by either of them, reaches the caller as it is. No other exception reaches the
  caller.
\<close>

theorem delete_forum_topic_outcomes:
  "(resolve_peer self cid = Return peer
      \<and> invoke self \<lparr>channel = peer, top_msg_id = topic_id\<rparr> = Return r \<longrightarrow>
      delete_forum_topic print self cid topic_id = (Return True, []))
   \<and> (is_Exception e \<and> print e = None \<and>
        (resolve_peer self cid = Raise e \<or>
         (resolve_peer self cid = Return peer
            \<and> invoke self \<lparr>channel = peer, top_msg_id = topic_id\<rparr> = Raise e)) \<longrightarrow>
      delete_forum_topic print self cid topic_id = (Return False, [e]))
   \<and> (is_Exception e \<and> print e = Some x \<and>
        (resolve_peer self cid = Raise e \<or>
         (resolve_peer self cid = Return peer
            \<and> invoke self \<lparr>channel = peer, top_msg_id = topic_id\<rparr> = Raise e)) \<longrightarrow>
      delete_forum_topic print self cid topic_id = (Raise x, []))
   \<and> (\<not> is_Exception e \<and>
        (resolve_peer self cid = Raise e \<or>
         (resolve_peer self cid = Return peer
            \<and> invoke self \<lparr>channel = peer, top_msg_id = topic_id\<rparr> = Raise e)) \<longrightarrow>
      delete_forum_topic print self cid topic_id = (Raise e, []))
   \<and> (fst (delete_forum_topic print self cid topic_id) = Raise y \<longrightarrow>
        (\<exists>e'. (resolve_peer self cid = Raise e' \<or>
               (\<exists>p. resolve_peer self cid = Return p
                  \<and> invoke self \<lparr>channel = p, top_msg_id = topic_id\<rparr> = Raise e'))
              \<and> (if is_Exception e' then print e' = Some y else y = e')))"
proof (intro conjI impI)
  assume "fst (delete_forum_topic print self cid topic_id) = Raise y"
  then show "\<exists>e'. (resolve_peer self cid = Raise e' \<or>
               (\<exists>p. resolve_peer self cid = Return p
                  \<and> invoke self \<lparr>channel = p, top_msg_id = topic_id\<rparr> = Raise e'))
              \<and> (if is_Exception e' then print e' = Some y else y = e')"
    by (auto simp: delete_forum_topic_def topic_failed_def
             split: result.splits option.splits if_splits)
qed (auto simp: delete_forum_topic_def topic_failed_def)

theorem delete_forum_topic_outcomes_witness:
  "delete_forum_topic (\<lambda>e. None)
     \<lparr>resolve_peer = (\<lambda>c. Return (5::nat)), invoke = (\<lambda>f. (Return () :: unit result))\<rparr>
     (ChatInt 1) 7 = (Return True, [])
   \<and> delete_forum_topic (\<lambda>e. None)
     \<lparr>resolve_peer = (\<lambda>c. Return (5::nat)),
      invoke = (\<lambda>f. (Raise (RPCError ''CHANNEL_INVALID'') :: unit result))\<rparr>
     (ChatInt 1) 7 = (Return False, [RPCError ''CHANNEL_INVALID''])
   \<and> delete_forum_topic (\<lambda>e. None)
     \<lparr>resolve_peer = (\<lambda>c. (Raise (ValueError ''PEER_ID_INVALID'') :: nat result)),
      invoke = (\<lambda>f. (Return () :: unit result))\<rparr>
     (ChatStr ''nobody'') 7 = (Return False, [ValueError ''PEER_ID_INVALID''])
   \<and> delete_forum_topic (\<lambda>e. Some (ValueError ''I/O operation on closed file.''))
     \<lparr>resolve_peer = (\<lambda>c. Return (5::nat)),
      invoke = (\<lambda>f. (Raise (RPCError ''CHANNEL_INVALID'') :: unit result))\<rparr>
     (ChatInt 1) 7 = (Raise (ValueError ''I/O operation on closed file.''), [])
   \<and> delete_forum_topic (\<lambda>e. None)
     \<lparr>resolve_peer = (\<lambda>c. (Raise KeyboardInterrupt :: nat result)),
      invoke = (\<lambda>f. (Return () :: unit result))\<rparr>
     (ChatInt 1) 7 = (Raise KeyboardInterrupt, [])
   \<and> (\<exists>e'. (Raise CancelledError :: unit result) = Raise e' \<and> \<not> is_Exception e')"
  using
    delete_forum_topic_outcomes
      [where print = "\<lambda>e. None"
         and self = "\<lparr>resolve_peer = (\<lambda>c. Return (5::nat)),
                       invoke = (\<lambda>f. (Return () :: unit result))\<rparr>"
         and cid = "ChatInt 1" and topic_id = 7 and peer = 5 and r = "()",
       THEN conjunct1]
    delete_forum_topic_outcomes
      [where print = "\<lambda>e. None"
         and self = "\<lparr>resolve_peer = (\<lambda>c. Return (5::nat)),
                       invoke = (\<lambda>f. (Raise (RPCError ''CHANNEL_INVALID'') :: unit result))\<rparr>"
         and cid = "ChatInt 1" and topic_id = 7 and peer = 5
         and e = "RPCError ''CHANNEL_INVALID''",
       THEN conjunct2, THEN conjunct1]
    delete_forum_topic_outcomes
      [where print = "\<lambda>e. None"
         and self = "\<lparr>resolve_peer = (\<lambda>c. (Raise (ValueError ''PEER_ID_INVALID'') :: nat result)),
                       invoke = (\<lambda>f. (Return () :: unit result))\<rparr>"
         and cid = "ChatStr ''nobody''" and topic_id = 7 and peer = 0
         and e = "ValueError ''PEER_ID_INVALID''",
       THEN conjunct2, THEN conjunct1]
    delete_forum_topic_outcomes
      [where print = "\<lambda>e. Some (ValueError ''I/O operation on closed file.'')"
         and self = "\<lparr>resolve_peer = (\<lambda>c. Return (5::nat)),
                       invoke = (\<lambda>f. (Raise (RPCError ''CHANNEL_INVALID'') :: unit result))\<rparr>"
         and cid = "ChatInt 1" and topic_id = 7 and peer = 5
         and e = "RPCError ''CHANNEL_INVALID''"
         and x = "ValueError ''I/O operation on closed file.''",
       THEN conjunct2, THEN conjunct2, THEN conjunct1]
    delete_forum_topic_outcomes
      [where print = "\<lambda>e. None"
         and self = "\<lparr>resolve_peer = (\<lambda>c. (Raise KeyboardInterrupt :: nat result)),
                       invoke = (\<lambda>f. (Return () :: unit result))\<rparr>"
         and cid = "ChatInt 1" and topic_id = 7 and peer = 0 and e = KeyboardInterrupt,
       THEN conjunct2, THEN conjunct2, THEN conjunct2, THEN conjunct1]
    delete_forum_topic_outcomes
      [where print = "\<lambda>e. None"
         and self = "\<lparr>resolve_peer = (\<lambda>c. Return (5::nat)),
                       invoke = (\<lambda>f. (Raise CancelledError :: unit result))\<rparr>"
         and cid = "ChatInt 1" and topic_id = 7 and y = CancelledError,
       THEN conjunct2, THEN conjunct2, THEN conjunct2, THEN conjunct2]
  by (simp add: delete_forum_topic_def topic_failed_def)

end
